theory Spec2Isabelle
  imports Main "HOL-Library.Word" "HOL-Library.Sublist"
begin

unbundle bit_operations_syntax

section \<open>The command-line front end of pixz (src/pixz.c)\<close>

text \<open>
  A shallow embedding of \<^verbatim>\<open>src/pixz.c\<close>: the suffix helpers \<^verbatim>\<open>strsuf\<close>,
  \<^verbatim>\<open>subsuf\<close>, the macro \<^verbatim>\<open>SUF\<close>, the path deriver \<^verbatim>\<open>auto_output\<close>, and
  \<^verbatim>\<open>main\<close>, cut into its phases (option loop, positional arguments, opening of the
  streams, dispatch, removal of the input).

  C strings are \<open>string\<close>s (the bytes before the terminating NUL), \<^verbatim>\<open>strlen\<close> is
  \<open>length\<close>, a \<^verbatim>\<open>char *\<close> that may be \<^verbatim>\<open>NULL\<close> is a \<open>string option\<close>.
\<close>

subsection \<open>Operation modes\<close>

datatype pixz_op_t = OP_WRITE | OP_READ | OP_EXTRACT | OP_LIST

subsection \<open>Suffix test and suffix substitution\<close>

text \<open>
  \<^verbatim>\<open>strsuf(big, small)\<close> computes \<^verbatim>\<open>big + bl - sl\<close> and hands that pointer to
  \<^verbatim>\<open>strcmp\<close>; there is no length test. When \<^verbatim>\<open>sl <= bl\<close> the pointer lies inside
  \<^verbatim>\<open>big\<close> and the string found there is \<open>drop (bl - sl) big\<close>. When \<^verbatim>\<open>sl > bl\<close>
  the pointer lies \<^verbatim>\<open>sl - bl\<close> bytes before the first byte of \<^verbatim>\<open>big\<close>. The only
  caller chain is \<^verbatim>\<open>main\<close>, \<^verbatim>\<open>auto_output(op, argv[0])\<close>, \<^verbatim>\<open>subsuf\<close>,
  \<^verbatim>\<open>strsuf(in, suf1)\<close>, with \<^verbatim>\<open>argv\<close> already advanced by \<^verbatim>\<open>optind\<close>: \<^verbatim>\<open>big\<close> is
  an argument string of the process, and the byte before it is the NUL that ends the
  argument before it. The string that starts \<^verbatim>\<open>sl - bl\<close> bytes before \<^verbatim>\<open>big\<close>
  therefore ends before \<^verbatim>\<open>big\<close> begins, has fewer than \<^verbatim>\<open>sl\<close> bytes, and
  \<^verbatim>\<open>strcmp\<close> answers non-zero: the result is \<^verbatim>\<open>false\<close>. \<open>strsuf_bytes\<close> below
  writes this reading out on the bytes, and \<open>strsuf_bytes_eq\<close> proves that it is
  \<open>strsuf\<close>. (C itself does not promise that layout: the read before \<^verbatim>\<open>big\<close>
  relies on it.)
\<close>

definition strsuf :: "string \<Rightarrow> string \<Rightarrow> bool" where
  "strsuf big small =
     (let bl = length big; sl = length small
      in if sl \<le> bl then drop (bl - sl) big = small else False)"

text \<open>
  The same on bytes. \<open>pre\<close> are the bytes in memory before \<^verbatim>\<open>big\<close>, then come the
  bytes of \<^verbatim>\<open>big\<close> and its NUL. \<open>string_at mem i\<close> is the C string that starts at
  offset \<open>i\<close>: the bytes up to the first NUL. The pointer \<^verbatim>\<open>big + bl - sl\<close> is the
  offset \<open>length pre + bl - sl\<close>.
\<close>

definition NUL :: char where
  "NUL = CHR 0x00"

definition string_at :: "char list \<Rightarrow> nat \<Rightarrow> string" where
  "string_at mem i = takeWhile (\<lambda>c. c \<noteq> NUL) (drop i mem)"

definition strsuf_bytes :: "char list \<Rightarrow> string \<Rightarrow> string \<Rightarrow> bool" where
  "strsuf_bytes pre big small =
     (let bl = length big; sl = length small
      in string_at (pre @ big @ [NUL]) (length pre + bl - sl) = small)"

text \<open>
  \<^verbatim>\<open>subsuf(in, suf1, suf2)\<close>: \<^verbatim>\<open>NULL\<close> when \<^verbatim>\<open>suf1\<close> is not a suffix; otherwise a
  fresh buffer holding the first \<^verbatim>\<open>li - l1\<close> bytes of \<^verbatim>\<open>in\<close> (\<^verbatim>\<open>memcpy\<close>) followed by
  \<^verbatim>\<open>suf2\<close> (\<^verbatim>\<open>strcpy\<close>). The buffer has \<^verbatim>\<open>li + l2 - l1 + 1\<close> bytes, which is what the
  two copies write; \<^verbatim>\<open>malloc\<close> is taken to succeed (the source does not test it).
\<close>

definition subsuf :: "string \<Rightarrow> string \<Rightarrow> string \<Rightarrow> string option" where
  "subsuf inp suf1 suf2 =
     (if \<not> strsuf inp suf1 then None
      else
        (let li = length inp; l1 = length suf1
         in Some (take (li - l1) inp @ suf2)))"

text \<open>
  The macro \<^verbatim>\<open>SUF(_op, _s1, _s2)\<close>: when the current operation is \<^verbatim>\<open>OP_##_op\<close>, call
  \<^verbatim>\<open>subsuf\<close> and return its result from \<^verbatim>\<open>auto_output\<close> if it is not \<^verbatim>\<open>NULL\<close>;
  otherwise fall through to the statements that follow, here the argument \<open>rest\<close>.
\<close>

definition SUF ::
  "pixz_op_t \<Rightarrow> string \<Rightarrow> pixz_op_t \<Rightarrow> string \<Rightarrow> string
     \<Rightarrow> string option \<Rightarrow> string option" where
  "SUF opr inp opx s1 s2 rest =
     (if opr = opx then
        (case subsuf inp s1 s2 of
           Some r \<Rightarrow> Some r
         | None \<Rightarrow> rest)
      else rest)"

definition auto_output :: "pixz_op_t \<Rightarrow> string \<Rightarrow> string option" where
  "auto_output opr inp =
     SUF opr inp OP_READ ''.tar.xz'' ''.tar''
    (SUF opr inp OP_READ ''.tpxz'' ''.tar''
    (SUF opr inp OP_READ ''.xz'' ''''
    (SUF opr inp OP_WRITE ''.tar'' ''.tpxz''
    (SUF opr inp OP_WRITE '''' ''.xz''
     None))))"

subsection \<open>The rule table as data\<close>

text \<open>
  The five \<^verbatim>\<open>SUF\<close> lines read as a table of (mode, match suffix, replacement), and
  the deriver the specification describes: the first rule of the current mode whose
  match suffix is a suffix of the path, with that suffix replaced; none when no rule of
  the mode matches.
\<close>

definition suffix_rules :: "(pixz_op_t \<times> string \<times> string) list" where
  "suffix_rules =
     [(OP_READ, ''.tar.xz'', ''.tar''),
      (OP_READ, ''.tpxz'', ''.tar''),
      (OP_READ, ''.xz'', ''''),
      (OP_WRITE, ''.tar'', ''.tpxz''),
      (OP_WRITE, '''', ''.xz'')]"

fun first_match :: "(pixz_op_t \<times> string \<times> string) list \<Rightarrow> pixz_op_t \<Rightarrow> string \<Rightarrow> string option" where
  "first_match [] opr inp = None"
| "first_match ((m, s1, s2) # rs) opr inp =
     (if m = opr \<and> suffix s1 inp
      then Some (take (length inp - length s1) inp @ s2)
      else first_match rs opr inp)"

definition spec_deriver :: "pixz_op_t \<Rightarrow> string \<Rightarrow> string option" where
  "spec_deriver opr inp = first_match suffix_rules opr inp"

section \<open>The model of main\<close>

subsection \<open>Library functions and constants used by main\<close>

text \<open>
  \<^verbatim>\<open>LZMA_PRESET_DEFAULT\<close> and \<^verbatim>\<open>LZMA_PRESET_EXTREME\<close> are liblzma's
  (\<^verbatim>\<open>lzma/container.h\<close>): \<^verbatim>\<open>6\<close> and \<^verbatim>\<open>0x80000000\<close>; \<^verbatim>\<open>level\<close> is a
  \<^verbatim>\<open>uint32_t\<close>, \<^verbatim>\<open>st_mode\<close> a \<^verbatim>\<open>mode_t\<close> (32 bits).
\<close>

type_synonym mode_t = "32 word"

definition LZMA_PRESET_DEFAULT :: "32 word" where
  "LZMA_PRESET_DEFAULT = 6"

definition LZMA_PRESET_EXTREME :: "32 word" where
  "LZMA_PRESET_EXTREME = 0x80000000"

text \<open>
  \<^verbatim>\<open>strtol(nptr, &endptr, 10)\<close> of the C library, in the C locale, with a 64-bit
  \<^verbatim>\<open>long\<close>: white space is skipped, one sign is read, then decimal digits; the value
  is clamped to the range of \<^verbatim>\<open>long\<close>; \<^verbatim>\<open>endptr\<close> is the unread rest, or
  \<^verbatim>\<open>nptr\<close> itself when no digit was found. The pair is (value, string at endptr).
\<close>

definition isspace :: "char \<Rightarrow> bool" where
  "isspace c = (of_char c \<in> {9, 10, 11, 12, 13, 32 :: nat})"

definition isdigit :: "char \<Rightarrow> bool" where
  "isdigit c = (48 \<le> (of_char c :: nat) \<and> (of_char c :: nat) \<le> 57)"

definition LONG_MAX :: int where
  "LONG_MAX = 2 ^ 63 - 1"

definition LONG_MIN :: int where
  "LONG_MIN = - (2 ^ 63)"

definition strtol :: "string \<Rightarrow> int \<times> string" where
  "strtol nptr =
     (let s = dropWhile isspace nptr;
          neg = (take 1 s = ''-'');
          t = (if take 1 s = ''-'' then drop 1 s
               else if take 1 s = ''+'' then drop 1 s else s);
          ds = takeWhile isdigit t;
          v = foldl (\<lambda>a c. 10 * a + (of_char c - 48)) (0 :: int) ds
      in if ds = [] then (0, nptr)
         else (if neg then max LONG_MIN (- v) else min LONG_MAX v, dropWhile isdigit t))"

subsection \<open>What main does to the outside, and how it ends\<close>

text \<open>
  The calls main makes to the file system and to the engine, in the order made. A call
  is recorded whether or not it succeeds.
\<close>

datatype effect =
    Fopen string string
  | Stat string
  | Open_creat_wronly string mode_t
  | Fdopen string
  | Isatty "string option"
  | Pixz_write bool "32 word"
  | Pixz_read bool "string list"
  | Pixz_list bool
  | Unlink string

text \<open>
  Modelled from the spec: \<^verbatim>\<open>die\<close> is declared in \<^verbatim>\<open>pixz.h\<close> and defined outside
  \<^verbatim>\<open>src/pixz.c\<close>; the specification gives it as
  \<open>ReportFatal(message, underlyingError) -> never returns, terminates process\<close>.
  The two calls of main are the outcomes \<open>Die_input\<close> and \<open>Die_output\<close>, carrying
  the path of the message. \<open>Usage msg\<close> is \<^verbatim>\<open>usage(msg)\<close>, which ends in
  \<^verbatim>\<open>exit(2)\<close>; \<open>Engine_exit\<close> is an engine call that ended the process itself
  instead of returning; \<open>Return0\<close> is \<^verbatim>\<open>return 0\<close>. \<open>exit_status\<close> is the
  status this file fixes: 2 for \<^verbatim>\<open>usage\<close>, 0 for \<^verbatim>\<open>return 0\<close>; the others are
  chosen outside it.
\<close>

datatype outcome =
    Usage "string option"
  | Die_input string
  | Die_output string
  | Engine_exit
  | Return0

fun exit_status :: "outcome \<Rightarrow> nat option" where
  "exit_status (Usage msg) = Some 2"
| "exit_status Return0 = Some 0"
| "exit_status other = None"

subsection \<open>The variables of main, and the world it runs in\<close>

text \<open>
  The locals of main that carry the configuration, with the three globals it assigns
  (declared in \<^verbatim>\<open>pixz.h\<close>): \<open>None\<close> there means main has not assigned the global, which
  keeps the value of its definition. \<^verbatim>\<open>double\<close> is the type parameter \<open>'d\<close>.
\<close>

record 'd config =
  level :: "32 word"
  tar :: bool
  keep_input :: bool
  extreme :: bool
  op :: pixz_op_t
  ipath :: "string option"
  opath :: "string option"
  iremove :: bool
  gBlockFraction :: "'d option"
  gPipelineProcessMax :: "int option"
  gPipelineQSize :: "int option"

text \<open>
  What main asks of its environment: \<^verbatim>\<open>strtod\<close> (value and string at
  \<^verbatim>\<open>optend\<close>) and the test \<^verbatim>\<open>optdbl <= 0\<close>; whether \<^verbatim>\<open>fopen(path, mode)\<close> gives a
  stream; what \<^verbatim>\<open>stat\<close> writes to \<^verbatim>\<open>st_mode\<close> (\<open>None\<close>: it fails and writes
  nothing, the return value is ignored and \<^verbatim>\<open>input_stat.st_mode\<close> keeps whatever the
  stack held, \<open>stack_mode\<close>); whether \<^verbatim>\<open>open\<close> and \<^verbatim>\<open>fdopen\<close> succeed; whether
  \<^verbatim>\<open>isatty(fileno(gOutFile)) == 1\<close> for standard output (\<open>None\<close>) or the opened
  output file; whether an engine call returns.
\<close>

record 'd world =
  strtod :: "string \<Rightarrow> 'd \<times> string"
  dbl_le_zero :: "'d \<Rightarrow> bool"
  fopen_ok :: "string \<Rightarrow> string \<Rightarrow> bool"
  stat_mode :: "string \<Rightarrow> mode_t option"
  stack_mode :: mode_t
  open_ok :: "string \<Rightarrow> mode_t \<Rightarrow> bool"
  fdopen_ok :: "string \<Rightarrow> bool"
  isatty_out :: "string option \<Rightarrow> bool"
  engine_returns :: "effect \<Rightarrow> bool"

definition init_config :: "'d config" where
  "init_config =
     \<lparr> level = LZMA_PRESET_DEFAULT, tar = True, keep_input = False, extreme = False,
       op = OP_WRITE, ipath = None, opath = None, iremove = False,
       gBlockFraction = None, gPipelineProcessMax = None, gPipelineQSize = None \<rparr>"

subsection \<open>The option loop\<close>

text \<open>
  \<^verbatim>\<open>getopt_long\<close> is the C library's. The loop consumes what it returns: the option
  character \<^verbatim>\<open>ch\<close> with the value of \<^verbatim>\<open>optarg\<close> at that moment, one pair per
  iteration (a long option returns its short character, an unknown option \<^verbatim>\<open>'?'\<close>).
  \<open>flag\<close> is the body of the \<^verbatim>\<open>switch\<close>. There is no \<^verbatim>\<open>case 'z'\<close>: that
  character reaches \<^verbatim>\<open>default\<close> like any other that is not a digit.
\<close>

type_synonym opt = "char \<times> string"

definition flag :: "'d world \<Rightarrow> 'd config \<Rightarrow> opt \<Rightarrow> outcome + 'd config" where
  "flag w st ev =
     (let ch = fst ev; optarg = snd ev in
      if ch = CHR ''c'' then Inr st
      else if ch = CHR ''d'' then Inr (st\<lparr>op := OP_READ\<rparr>)
      else if ch = CHR ''x'' then Inr (st\<lparr>op := OP_EXTRACT\<rparr>)
      else if ch = CHR ''l'' then Inr (st\<lparr>op := OP_LIST\<rparr>)
      else if ch = CHR ''i'' then Inr (st\<lparr>ipath := Some optarg\<rparr>)
      else if ch = CHR ''o'' then Inr (st\<lparr>opath := Some optarg\<rparr>)
      else if ch = CHR ''t'' then Inr (st\<lparr>tar := False\<rparr>)
      else if ch = CHR ''k'' then Inr (st\<lparr>keep_input := True\<rparr>)
      else if ch = CHR ''h'' then Inl (Usage None)
      else if ch = CHR ''e'' then Inr (st\<lparr>extreme := True\<rparr>)
      else if ch = CHR ''f'' then
        (let optdbl = fst (strtod w optarg); optend = snd (strtod w optarg) in
         if optend \<noteq> [] then Inl (Usage (Some ''Need a positive floating-point argument to -f''))
         else if dbl_le_zero w optdbl
         then Inl (Usage (Some ''Need a positive floating-point argument to -f''))
         else Inr (st\<lparr>gBlockFraction := Some optdbl\<rparr>))
      else if ch = CHR ''p'' \<or> ch = CHR ''T'' then
        (let optint = fst (strtol optarg); optend = snd (strtol optarg) in
         if optint < 0 then Inl (Usage (Some ''Need a non-negative integer argument to -p''))
         else if optend \<noteq> [] then Inl (Usage (Some ''Need a non-negative integer argument to -p''))
         else Inr (st\<lparr>gPipelineProcessMax := Some optint\<rparr>))
      else if ch = CHR ''q'' then
        (let optint = fst (strtol optarg); optend = snd (strtol optarg) in
         if optint \<le> 0 then Inl (Usage (Some ''Need a positive integer argument to -q''))
         else if optend \<noteq> [] then Inl (Usage (Some ''Need a positive integer argument to -q''))
         else Inr (st\<lparr>gPipelineQSize := Some optint\<rparr>))
      else if isdigit ch then Inr (st\<lparr>level := of_nat (of_char ch - 48)\<rparr>)
      else Inl (Usage (Some '''')))"

fun flags :: "'d world \<Rightarrow> 'd config \<Rightarrow> opt list \<Rightarrow> outcome + 'd config" where
  "flags w st [] = Inr st"
| "flags w st (ev # evs) =
     (case flag w st ev of
        Inl out \<Rightarrow> Inl out
      | Inr st' \<Rightarrow> flags w st' evs)"

subsection \<open>The positional arguments\<close>

text \<open>
  \<open>argv\<close> is what is left after \<^verbatim>\<open>argc -= optind; argv += optind\<close>. The local
  \<^verbatim>\<open>iremove\<close> starts \<^verbatim>\<open>false\<close> (in \<open>init_config\<close>). With one argument and an
  operation other than listing, \<^verbatim>\<open>opath\<close> is assigned the result of
  \<^verbatim>\<open>auto_output\<close> whatever it held before.
\<close>

definition positional :: "'d config \<Rightarrow> string list \<Rightarrow> outcome + 'd config" where
  "positional st argv =
     (let argc = length argv in
      if op st \<noteq> OP_EXTRACT \<and> 1 \<le> argc then
        if 2 < argc \<or> (op st = OP_LIST \<and> argc = 2)
        then Inl (Usage (Some ''Too many arguments''))
        else if ipath st \<noteq> None
        then Inl (Usage (Some ''Multiple input files specified''))
        else
          (let st1 = st\<lparr>ipath := Some (argv ! 0)\<rparr> in
           if argc = 2 then
             if opath st1 \<noteq> None
             then Inl (Usage (Some ''Multiple output files specified''))
             else Inr (st1\<lparr>opath := Some (argv ! 1)\<rparr>)
           else if op st1 \<noteq> OP_LIST then
             (case auto_output (op st1) (argv ! 0) of
                None \<Rightarrow> Inl (Usage (Some ''Unknown suffix''))
              | Some r \<Rightarrow> Inr (st1\<lparr>iremove := True, opath := Some r\<rparr>))
           else Inr st1)
      else Inr st)"

subsection \<open>Opening the streams\<close>

text \<open>
  \<^verbatim>\<open>gInFile\<close> is \<^verbatim>\<open>stdin\<close> unless \<^verbatim>\<open>ipath\<close> is set, in which case it is the
  stream \<^verbatim>\<open>fopen\<close> returned (or the process has ended): the test
  \<^verbatim>\<open>gInFile == stdin\<close> is \<open>ipath st = None\<close>. Each function gives the calls made
  and, when the process ends there, how.
\<close>

definition open_input :: "'d world \<Rightarrow> 'd config \<Rightarrow> effect list \<times> outcome option" where
  "open_input w st =
     (case ipath st of
        None \<Rightarrow> ([], None)
      | Some ip \<Rightarrow>
          if fopen_ok w ip ''r'' then ([Fopen ip ''r''], None)
          else ([Fopen ip ''r''], Some (Die_input ip)))"

definition open_output :: "'d world \<Rightarrow> 'd config \<Rightarrow> effect list \<times> outcome option" where
  "open_output w st =
     (case opath st of
        None \<Rightarrow> ([], None)
      | Some outp \<Rightarrow>
          (case ipath st of
             None \<Rightarrow>
               if fopen_ok w outp ''w'' then ([Fopen outp ''w''], None)
               else ([Fopen outp ''w''], Some (Die_output outp))
           | Some ip \<Rightarrow>
               (let st_mode = (case stat_mode w ip of Some m \<Rightarrow> m | None \<Rightarrow> stack_mode w) in
                if open_ok w outp st_mode then
                  if fdopen_ok w outp
                  then ([Stat ip, Open_creat_wronly outp st_mode, Fdopen outp], None)
                  else ([Stat ip, Open_creat_wronly outp st_mode, Fdopen outp],
                        Some (Die_output outp))
                else ([Stat ip, Open_creat_wronly outp st_mode], Some (Die_output outp)))))"

subsection \<open>Dispatch and removal of the input\<close>

text \<open>
  Modelled from the spec: \<^verbatim>\<open>pixz_write\<close>, \<^verbatim>\<open>pixz_read\<close> and \<^verbatim>\<open>pixz_list\<close> are
  defined outside \<^verbatim>\<open>src/pixz.c\<close>; the specification gives each as
  \<open>-> success|fatal\<close>. \<open>engine\<close> records the call with its arguments and asks the
  world whether it returns.
\<close>

definition engine :: "'d world \<Rightarrow> effect \<Rightarrow> effect list \<times> outcome option" where
  "engine w e = ([e], if engine_returns w e then None else Some Engine_exit)"

definition dispatch ::
  "'d world \<Rightarrow> 'd config \<Rightarrow> string list \<Rightarrow> effect list \<times> outcome option" where
  "dispatch w st argv =
     (case op st of
        OP_WRITE \<Rightarrow>
          if isatty_out w (opath st)
          then ([Isatty (opath st)], Some (Usage (Some ''Refusing to output to a TTY'')))
          else
            (let lvl = (if extreme st then level st OR LZMA_PRESET_EXTREME else level st);
                 r = engine w (Pixz_write (tar st) lvl)
             in (Isatty (opath st) # fst r, snd r))
      | OP_READ \<Rightarrow> engine w (Pixz_read (tar st) [])
      | OP_EXTRACT \<Rightarrow> engine w (Pixz_read (tar st) argv)
      | OP_LIST \<Rightarrow> engine w (Pixz_list (tar st)))"

text \<open>
  \<^verbatim>\<open>if (iremove && !keep_input) unlink(ipath)\<close>; the result of \<^verbatim>\<open>unlink\<close> is not
  looked at. \<^verbatim>\<open>iremove\<close> is only set after \<^verbatim>\<open>ipath = argv[0]\<close>.
\<close>

definition cleanup :: "'d config \<Rightarrow> effect list" where
  "cleanup st =
     (if iremove st \<and> \<not> keep_input st
      then (case ipath st of None \<Rightarrow> [] | Some ip \<Rightarrow> [Unlink ip])
      else [])"

subsection \<open>main\<close>

text \<open>
  \<open>run\<close> is main from the first \<^verbatim>\<open>fopen\<close> on, for a resolved configuration;
  \<open>main\<close> is the whole: the outcome and the calls made, in order.
\<close>

definition run :: "'d world \<Rightarrow> 'd config \<Rightarrow> string list \<Rightarrow> outcome \<times> effect list" where
  "run w st argv =
     (case snd (open_input w st) of
        Some out \<Rightarrow> (out, fst (open_input w st))
      | None \<Rightarrow>
     (case snd (open_output w st) of
        Some out \<Rightarrow> (out, fst (open_input w st) @ fst (open_output w st))
      | None \<Rightarrow>
     (case snd (dispatch w st argv) of
        Some out \<Rightarrow>
          (out, fst (open_input w st) @ fst (open_output w st) @ fst (dispatch w st argv))
      | None \<Rightarrow>
          (Return0, fst (open_input w st) @ fst (open_output w st)
                      @ fst (dispatch w st argv) @ cleanup st))))"

definition main :: "'d world \<Rightarrow> opt list \<Rightarrow> string list \<Rightarrow> outcome \<times> effect list" where
  "main w opts argv =
     (case flags w init_config opts of
        Inl out \<Rightarrow> (out, [])
      | Inr st0 \<Rightarrow>
          (case positional st0 argv of
             Inl out \<Rightarrow> (out, [])
           | Inr st \<Rightarrow> run w st argv))"

subsection \<open>Reading a trace\<close>

text \<open>
  The engine calls of a trace, the calls that open or create a file, and the paths
  handed to \<^verbatim>\<open>unlink\<close>, each in the order of the trace.
\<close>

fun engine_calls :: "effect list \<Rightarrow> effect list" where
  "engine_calls [] = []"
| "engine_calls (Pixz_write t l # es) = Pixz_write t l # engine_calls es"
| "engine_calls (Pixz_read t ms # es) = Pixz_read t ms # engine_calls es"
| "engine_calls (Pixz_list t # es) = Pixz_list t # engine_calls es"
| "engine_calls (e # es) = engine_calls es"

fun open_calls :: "effect list \<Rightarrow> effect list" where
  "open_calls [] = []"
| "open_calls (Fopen p m # es) = Fopen p m # open_calls es"
| "open_calls (Open_creat_wronly p m # es) = Open_creat_wronly p m # open_calls es"
| "open_calls (Fdopen p # es) = Fdopen p # open_calls es"
| "open_calls (e # es) = open_calls es"

fun unlinked :: "effect list \<Rightarrow> string list" where
  "unlinked [] = []"
| "unlinked (Unlink p # es) = p # unlinked es"
| "unlinked (e # es) = unlinked es"

text \<open>
  A world for concrete runs: every call succeeds, nothing is a terminal, every input
  file has mode \<^verbatim>\<open>0100640\<close> (a regular file, \<^verbatim>\<open>rw-r-----\<close>). Its \<^verbatim>\<open>double\<close> is
  \<open>unit\<close>: \<^verbatim>\<open>strtod\<close> reads the whole argument and the value is positive.
\<close>

definition plain_world :: "unit world" where
  "plain_world =
     \<lparr> strtod = (\<lambda>s. ((), [])), dbl_le_zero = (\<lambda>d. False),
       fopen_ok = (\<lambda>p m. True), stat_mode = (\<lambda>p. Some 0x81A0), stack_mode = 0,
       open_ok = (\<lambda>p m. True), fdopen_ok = (\<lambda>p. True),
       isatty_out = (\<lambda>p. False), engine_returns = (\<lambda>e. True) \<rparr>"

text \<open>
  Two more: one whose standard output is a terminal, one in which no output file can be
  created.
\<close>

definition tty_world :: "unit world" where
  "tty_world = plain_world\<lparr>isatty_out := (\<lambda>p. True)\<rparr>"

definition full_disk_world :: "unit world" where
  "full_disk_world = plain_world\<lparr>open_ok := (\<lambda>p m. False)\<rparr>"

section \<open>Properties of the path deriver\<close>

lemma strsuf_suffix: "strsuf big small = suffix small big"
proof (cases "length small \<le> length big")
  case True
  have "(drop (length big - length small) big = small) = suffix small big"
  proof
    assume "drop (length big - length small) big = small"
    then show "suffix small big"
      by (metis suffix_drop)
  next
    assume "suffix small big"
    then obtain p where "big = p @ small"
      by (auto simp: suffix_def)
    then show "drop (length big - length small) big = small"
      by simp
  qed
  with True show ?thesis
    by (simp add: strsuf_def Let_def)
next
  case False
  then have "\<not> suffix small big"
    using suffix_length_le by blast
  with False show ?thesis
    by (simp add: strsuf_def Let_def)
qed

text \<open>
  The reading on bytes agrees with \<open>strsuf\<close> whenever the bytes before \<^verbatim>\<open>big\<close>
  end in a NUL and reach back as far as the pointer does: inside \<^verbatim>\<open>big\<close> the string
  found is the tail of \<^verbatim>\<open>big\<close>; before it, the string found stops at that NUL at the
  latest and is shorter than \<^verbatim>\<open>small\<close>.
\<close>

lemma takeWhile_to_NUL:
  "NUL \<notin> set xs \<Longrightarrow> takeWhile (\<lambda>c. c \<noteq> NUL) (xs @ NUL # ys) = xs"
  by (induction xs) auto

lemma takeWhile_to_NUL_le:
  "length (takeWhile (\<lambda>c. c \<noteq> NUL) (xs @ NUL # ys)) \<le> length xs"
  by (induction xs) auto

lemma string_at_inside:
  assumes "NUL \<notin> set big" and "i \<le> length big"
  shows "string_at (pre @ big @ [NUL]) (length pre + i) = drop i big"
proof -
  have "NUL \<notin> set (drop i big)"
    using assms(1) by (meson in_set_dropD)
  then have "takeWhile (\<lambda>c. c \<noteq> NUL) (drop i big @ [NUL]) = drop i big"
    by (rule takeWhile_to_NUL)
  with assms(2) show ?thesis
    by (simp add: string_at_def)
qed

lemma string_at_before:
  assumes "pre \<noteq> []" and "last pre = NUL" and "0 < k" and "k \<le> length pre"
  shows "length (string_at (pre @ big @ [NUL]) (length pre - k)) < k"
proof -
  obtain q where q: "pre = q @ [NUL]"
    using assms(1,2) by (metis append_butlast_last_id)
  have d: "drop (length pre - k) (pre @ big @ [NUL]) = drop (length pre - k) q @ NUL # big @ [NUL]"
    using assms(3,4) by (simp add: q)
  have "length (takeWhile (\<lambda>c. c \<noteq> NUL) (drop (length pre - k) q @ NUL # big @ [NUL]))
          \<le> length (drop (length pre - k) q)"
    by (rule takeWhile_to_NUL_le)
  also have "\<dots> < k"
    using assms(3,4) by (simp add: q)
  finally show ?thesis
    unfolding string_at_def d .
qed

lemma strsuf_bytes_eq:
  assumes "pre \<noteq> []" and "last pre = NUL"
    and "NUL \<notin> set big"
    and "length small \<le> length pre + length big"
  shows "strsuf_bytes pre big small = strsuf big small"
proof (cases "length small \<le> length big")
  case True
  then have "length pre + length big - length small = length pre + (length big - length small)"
    by simp
  with True show ?thesis
    using string_at_inside [OF assms(3), of "length big - length small" pre]
    by (simp add: strsuf_bytes_def strsuf_def Let_def)
next
  case False
  define k where "k = length small - length big"
  have k: "0 < k" "k \<le> length pre" "length pre + length big - length small = length pre - k"
    using False assms(4) by (simp_all add: k_def)
  have "length (string_at (pre @ big @ [NUL]) (length pre - k)) < k"
    using string_at_before [OF assms(1,2) k(1,2)] .
  also have "k \<le> length small"
    by (simp add: k_def)
  finally have "string_at (pre @ big @ [NUL]) (length pre - k) \<noteq> small"
    by auto
  with False k(3) show ?thesis
    by (simp add: strsuf_bytes_def strsuf_def Let_def)
qed

text \<open>Each \<^verbatim>\<open>SUF\<close> line is one rule of the table.\<close>

lemma subsuf_suffix:
  "subsuf inp s1 s2 =
     (if suffix s1 inp then Some (take (length inp - length s1) inp @ s2) else None)"
  by (simp add: subsuf_def strsuf_suffix Let_def)

lemma SUF_suffix:
  "SUF opr inp opx s1 s2 rest =
     (if opr = opx \<and> suffix s1 inp
      then Some (take (length inp - length s1) inp @ s2) else rest)"
  by (simp add: SUF_def subsuf_suffix)

section \<open>Properties of the phases of main\<close>

lemma flags_append:
  "flags w st (xs @ ys) =
     (case flags w st xs of Inl out \<Rightarrow> Inl out | Inr st' \<Rightarrow> flags w st' ys)"
  by (induction xs arbitrary: st) (auto split: sum.splits)

lemma flag_error_is_usage: "flag w st ev = Inl out \<Longrightarrow> \<exists>msg. out = Usage msg"
  by (auto simp: flag_def Let_def split: if_splits)

lemma flags_error_is_usage: "flags w st evs = Inl out \<Longrightarrow> \<exists>msg. out = Usage msg"
proof (induction evs arbitrary: st)
  case Nil
  then show ?case by simp
next
  case (Cons ev evs)
  then show ?case
    by (auto split: sum.splits dest: flag_error_is_usage)
qed

lemma flag_c: "flag w st (CHR ''c'', a) = Inr st"
  by (simp add: flag_def)

lemma strtol_zero: "strtol ''0'' = (0, [])"
  by (simp add: strtol_def isspace_def isdigit_def Let_def LONG_MAX_def)

lemma flag_q_zero:
  "flag w st (CHR ''q'', ''0'') = Inl (Usage (Some ''Need a positive integer argument to -q''))"
  by (simp add: flag_def strtol_zero)

lemma flag_iremove: "flag w st ev = Inr st' \<Longrightarrow> iremove st' = iremove st"
  by (auto simp: flag_def Let_def split: if_splits)

lemma flags_iremove: "flags w st evs = Inr st' \<Longrightarrow> iremove st' = iremove st"
proof (induction evs arbitrary: st)
  case Nil
  then show ?case by simp
next
  case (Cons ev evs)
  then show ?case
    by (auto split: sum.splits dest: flag_iremove)
qed

lemma positional_iremove:
  "positional st0 argv = Inr st \<Longrightarrow> \<not> iremove st0 \<Longrightarrow> iremove st \<Longrightarrow> ipath st \<noteq> None"
  by (auto simp: positional_def Let_def split: if_splits sum.splits option.splits)

text \<open>
  One positional argument, compressing or decompressing: whatever \<^verbatim>\<open>opath\<close> held,
  it is replaced by the derived path, and the removal mark is set.
\<close>

lemma positional_one_argument:
  assumes "op st = OP_WRITE \<or> op st = OP_READ"
    and "ipath st = None"
    and "auto_output (op st) a = Some r"
  shows "positional st [a] = Inr (st\<lparr>ipath := Some a, iremove := True, opath := Some r\<rparr>)"
  using assms by (auto simp: positional_def)

lemma main_resolved:
  "flags w init_config opts = Inr st0 \<Longrightarrow> positional st0 argv = Inr st \<Longrightarrow>
   main w opts argv = run w st argv"
  by (simp add: main_def)

lemma unlinked_append: "unlinked (xs @ ys) = unlinked xs @ unlinked ys"
  by (induction xs rule: unlinked.induct) simp_all

lemma engine_calls_append: "engine_calls (xs @ ys) = engine_calls xs @ engine_calls ys"
  by (induction xs rule: engine_calls.induct) simp_all

lemma open_calls_append: "open_calls (xs @ ys) = open_calls xs @ open_calls ys"
  by (induction xs rule: open_calls.induct) simp_all

lemma open_input_quiet:
  "engine_calls (fst (open_input w st)) = []"
  "unlinked (fst (open_input w st)) = []"
  by (simp_all add: open_input_def split: option.splits)

lemma open_output_quiet:
  "engine_calls (fst (open_output w st)) = []"
  "unlinked (fst (open_output w st)) = []"
  by (simp_all add: open_output_def Let_def split: option.splits)

lemma dispatch_quiet:
  "unlinked (fst (dispatch w st argv)) = []"
  "open_calls (fst (dispatch w st argv)) = []"
  by (simp_all add: dispatch_def engine_def Let_def split: pixz_op_t.splits)

lemma cleanup_quiet:
  "engine_calls (cleanup st) = []"
  "open_calls (cleanup st) = []"
  by (auto simp: cleanup_def split: option.splits)

lemma stages_do_not_return:
  "snd (open_input w st) \<noteq> Some Return0"
  "snd (open_output w st) \<noteq> Some Return0"
  "snd (dispatch w st argv) \<noteq> Some Return0"
  by (simp_all add: open_input_def open_output_def dispatch_def engine_def Let_def
      split: option.splits pixz_op_t.splits)

lemma run_unlinked:
  "unlinked (snd (run w st argv)) =
     (if fst (run w st argv) = Return0 then unlinked (cleanup st) else [])"
  using stages_do_not_return(1,2) [of w st] stages_do_not_return(3) [of w st argv]
  by (auto simp: run_def unlinked_append open_input_quiet open_output_quiet dispatch_quiet
      split: option.splits)

lemma auto_output_foo_tar: "auto_output OP_WRITE ''foo.tar'' = Some ''foo.tpxz''"
  by (simp add: auto_output_def SUF_def subsuf_def strsuf_def)

lemma flags_nil: "flags w init_config [] = Inr init_config"
  by simp

lemma positional_foo_tar:
  "positional (init_config :: unit config) [''foo.tar''] =
     Inr (init_config\<lparr>ipath := Some ''foo.tar'', iremove := True, opath := Some ''foo.tpxz''\<rparr>)"
  by (rule positional_one_argument) (simp_all add: init_config_def auto_output_foo_tar)

lemma main_foo_tar_returns: "fst (main plain_world [] [''foo.tar'']) = Return0"
  by (simp add: main_resolved [OF flags_nil positional_foo_tar] run_def open_input_def
      open_output_def dispatch_def engine_def init_config_def plain_world_def)

lemma main_foo_tar_full_disk:
  "fst (main full_disk_world [] [''foo.tar'']) = Die_output ''foo.tpxz''"
  by (simp add: main_resolved [OF flags_nil positional_foo_tar] run_def open_input_def
      open_output_def init_config_def full_disk_world_def plain_world_def)

text \<open>Two runs on paths shorter than the suffixes tried first.\<close>

lemma auto_output_a: "auto_output OP_WRITE ''a'' = Some ''a.xz''"
  by (simp add: auto_output_def SUF_def subsuf_def strsuf_def)

lemma positional_a:
  "positional (init_config :: unit config) [''a''] =
     Inr (init_config\<lparr>ipath := Some ''a'', iremove := True, opath := Some ''a.xz''\<rparr>)"
  by (rule positional_one_argument) (simp_all add: init_config_def auto_output_a)

lemma auto_output_foo_xz: "auto_output OP_READ ''foo.xz'' = Some ''foo''"
  by (simp add: auto_output_def SUF_def subsuf_def strsuf_def)

lemma flags_d:
  "flags plain_world init_config [(CHR ''d'', [])] = Inr (init_config\<lparr>op := OP_READ\<rparr>)"
  by (simp add: flag_def)

lemma positional_foo_xz:
  "positional (init_config\<lparr>op := OP_READ\<rparr> :: unit config) [''foo.xz''] =
     Inr (init_config\<lparr>op := OP_READ, ipath := Some ''foo.xz'', iremove := True,
            opath := Some ''foo''\<rparr>)"
  by (rule positional_one_argument) (simp_all add: init_config_def auto_output_foo_xz)

lemma main_foo_xz_returns:
  "fst (main plain_world [(CHR ''d'', [])] [''foo.xz'']) = Return0"
  unfolding main_resolved [OF flags_d positional_foo_xz]
  by (simp add: run_def open_input_def open_output_def dispatch_def engine_def
      init_config_def plain_world_def)

section \<open>The claims\<close>

text \<open>
  Claim C1: for every mode and known path, \<^verbatim>\<open>auto_output\<close> is a pure function that
  tries the rules of the current mode only, in table order, and returns the substitution
  of the first rule whose match suffix is a suffix of the path; none if no rule of the
  mode matches.

  \<open>spec_deriver\<close> is that description over the table \<open>suffix_rules\<close>; the code
  computes it on every mode and every path.
\<close>

theorem auto_output_first_match:
  "auto_output opr inp = spec_deriver opr inp"
  by (simp add: auto_output_def spec_deriver_def suffix_rules_def SUF_suffix)

text \<open>
  Claim C2: when an output path is set and the input is a file, the output file is
  created requesting the input file's mode bits, not the default creation mode, and a
  failure to create it ends the run before the dispatcher.

  For a resolved configuration with both paths, an input that opened and a \<^verbatim>\<open>stat\<close>
  that delivered \<open>m\<close>: the calls that open files are \<^verbatim>\<open>fopen(ipath, "r")\<close>,
  \<^verbatim>\<open>open(opath, O_CREAT | O_WRONLY, m)\<close> and, if that succeeded, \<^verbatim>\<open>fdopen\<close>; there
  is no \<^verbatim>\<open>fopen(opath, "w")\<close>. The mode argument is the whole \<^verbatim>\<open>st_mode\<close>, so its
  permission bits are the input's. If \<^verbatim>\<open>open\<close> or \<^verbatim>\<open>fdopen\<close> fails the outcome is
  \<^verbatim>\<open>die\<close> on the output path and no engine call was made.
\<close>

theorem output_created_with_input_mode:
  assumes "flags w init_config opts = Inr st0"
    and "positional st0 argv = Inr st"
    and "opath st = Some outp"
    and "ipath st = Some ip"
    and "fopen_ok w ip ''r''"
    and "stat_mode w ip = Some m"
  shows "open_calls (snd (main w opts argv)) =
           Fopen ip ''r'' # Open_creat_wronly outp m #
             (if open_ok w outp m then [Fdopen outp] else [])
       \<and> (\<not> (open_ok w outp m \<and> fdopen_ok w outp) \<longrightarrow>
            fst (main w opts argv) = Die_output outp \<and>
            engine_calls (snd (main w opts argv)) = [])"
proof -
  have i: "open_input w st = ([Fopen ip ''r''], None)"
    using assms by (simp add: open_input_def)
  have o: "open_output w st =
      (if open_ok w outp m then
         if fdopen_ok w outp then ([Stat ip, Open_creat_wronly outp m, Fdopen outp], None)
         else ([Stat ip, Open_creat_wronly outp m, Fdopen outp], Some (Die_output outp))
       else ([Stat ip, Open_creat_wronly outp m], Some (Die_output outp)))"
    using assms by (simp add: open_output_def)
  show ?thesis
    by (simp add: main_resolved [OF assms(1,2)] run_def i o dispatch_quiet cleanup_quiet
        open_calls_append engine_calls_append split: option.splits)
qed

theorem output_created_with_input_mode_witness:
  "open_calls (snd (main plain_world [] [''foo.tar''])) =
     [Fopen ''foo.tar'' ''r'', Open_creat_wronly ''foo.tpxz'' 0x81A0, Fdopen ''foo.tpxz'']
   \<and> open_calls (snd (main full_disk_world [] [''foo.tar''])) =
     [Fopen ''foo.tar'' ''r'', Open_creat_wronly ''foo.tpxz'' 0x81A0]
   \<and> fst (main full_disk_world [] [''foo.tar'']) = Die_output ''foo.tpxz''
   \<and> engine_calls (snd (main full_disk_world [] [''foo.tar''])) = []
   \<and> open_calls (snd (main plain_world [(CHR ''d'', [])] [''foo.xz''])) =
     [Fopen ''foo.xz'' ''r'', Open_creat_wronly ''foo'' 0x81A0, Fdopen ''foo'']"
proof -
  have c: "open_calls (snd (main plain_world [(CHR ''d'', [])] [''foo.xz''])) =
      [Fopen ''foo.xz'' ''r'', Open_creat_wronly ''foo'' 0x81A0, Fdopen ''foo'']"
    using output_created_with_input_mode
      [OF flags_d positional_foo_xz, where outp = "''foo''" and ip = "''foo.xz''"
        and m = "0x81A0"]
    by (simp add: plain_world_def)
  have a: "open_calls (snd (main plain_world [] [''foo.tar''])) =
      [Fopen ''foo.tar'' ''r'', Open_creat_wronly ''foo.tpxz'' 0x81A0, Fdopen ''foo.tpxz'']"
    using output_created_with_input_mode
      [OF flags_nil positional_foo_tar, of "''foo.tpxz''" "''foo.tar''" plain_world "0x81A0"]
    by (simp add: plain_world_def)
  have b: "open_calls (snd (main full_disk_world [] [''foo.tar''])) =
      [Fopen ''foo.tar'' ''r'', Open_creat_wronly ''foo.tpxz'' 0x81A0]
    \<and> fst (main full_disk_world [] [''foo.tar'']) = Die_output ''foo.tpxz''
    \<and> engine_calls (snd (main full_disk_world [] [''foo.tar''])) = []"
    using output_created_with_input_mode
      [OF flags_nil positional_foo_tar, of "''foo.tpxz''" "''foo.tar''" full_disk_world "0x81A0"]
    by (simp add: full_disk_world_def plain_world_def)
  from a b c show ?thesis by simp
qed

text \<open>
  Claim C3: the path deriver runs only when no output path was given; an output path
  supplied with \<^verbatim>\<open>-o\<close> is the one used.

  With \<^verbatim>\<open>-o\<close> and two positional arguments main refuses the second output
  (\<^verbatim>\<open>Multiple output files specified\<close>); with \<^verbatim>\<open>-o\<close> and one positional argument it
  does not look at \<^verbatim>\<open>opath\<close> and assigns it the derived path
  (\<open>positional_one_argument\<close>). \<^verbatim>\<open>pixz -o out.bin in.tar\<close> writes
  \<^verbatim>\<open>in.tpxz\<close>, never opens \<^verbatim>\<open>out.bin\<close>, and unlinks \<^verbatim>\<open>in.tar\<close>.
\<close>

theorem explicit_output_overwritten:
  "main plain_world [(CHR ''o'', ''out.bin'')] [''in.tar''] =
     (Return0,
      [Fopen ''in.tar'' ''r'', Stat ''in.tar'', Open_creat_wronly ''in.tpxz'' 0x81A0,
       Fdopen ''in.tpxz'', Isatty (Some ''in.tpxz''), Pixz_write True 6, Unlink ''in.tar''])"
proof -
  have a: "auto_output OP_WRITE ''in.tar'' = Some ''in.tpxz''"
    by (simp add: auto_output_def SUF_def subsuf_def strsuf_def)
  show ?thesis
    by (simp add: main_def flag_def init_config_def positional_def a run_def open_input_def
        open_output_def dispatch_def engine_def cleanup_def plain_world_def
        LZMA_PRESET_DEFAULT_def)
qed

text \<open>
  Claim C4: for every name ending in \<^verbatim>\<open>.tar\<close>, deriving under compression and then
  under decompression gives the name back.

  For every stem \<open>p\<close>, also the empty one: compressing \<open>p.tar\<close> derives
  \<open>p.tpxz\<close>, decompressing \<open>p.tpxz\<close> derives \<open>p.tar\<close> (the rule for
  \<^verbatim>\<open>.tar.xz\<close>, tried first, does not match a name ending in \<^verbatim>\<open>.tpxz\<close>), and so
  does the composition of the two.
\<close>

theorem round_trip_tar:
  "auto_output OP_WRITE (p @ ''.tar'') = Some (p @ ''.tpxz'') \<and>
   auto_output OP_READ (p @ ''.tpxz'') = Some (p @ ''.tar'') \<and>
   Option.bind (auto_output OP_WRITE (p @ ''.tar'')) (auto_output OP_READ) = Some (p @ ''.tar'')"
proof -
  have w: "auto_output OP_WRITE (p @ ''.tar'') = Some (p @ ''.tpxz'')"
    by (simp add: auto_output_def SUF_suffix suffix_def)
  have "\<not> suffix ''.tar.xz'' (p @ ''.tpxz'')"
    by (auto simp: suffix_def)
  then have r: "auto_output OP_READ (p @ ''.tpxz'') = Some (p @ ''.tar'')"
    by (simp add: auto_output_def SUF_suffix suffix_def)
  from w r show ?thesis
    by simp
qed

text \<open>
  Claim C5: with the single positional argument \<^verbatim>\<open>foo.tar\<close> when compressing, the
  derived output path is \<^verbatim>\<open>foo.tar\<close> with the compressed-tar suffix appended, and the
  input is removed after a successful run unless \<^verbatim>\<open>-k\<close> was given.

  As stated this fails: the derived path is \<^verbatim>\<open>foo.tpxz\<close>, which does not begin with
  \<^verbatim>\<open>foo.tar\<close>; the rule replaces \<^verbatim>\<open>.tar\<close> by \<^verbatim>\<open>.tpxz\<close>.
\<close>

theorem foo_tar_suffix_not_appended:
  "auto_output OP_WRITE ''foo.tar'' = Some ''foo.tpxz'' \<and>
   \<not> prefix ''foo.tar'' ''foo.tpxz''"
  by (simp add: auto_output_def SUF_def subsuf_def strsuf_def)

text \<open>
  Claim C5, amended: with the single positional argument \<^verbatim>\<open>foo.tar\<close>, compression
  mode and no input path from \<^verbatim>\<open>-i\<close>, the input path is \<^verbatim>\<open>foo.tar\<close>, the output
  path is \<^verbatim>\<open>foo.tpxz\<close> (the suffix \<^verbatim>\<open>.tar\<close> replaced by \<^verbatim>\<open>.tpxz\<close>), the removal
  mark is set, and \<^verbatim>\<open>foo.tar\<close> is unlinked exactly when main returns and \<^verbatim>\<open>-k\<close> was
  not given.
\<close>

theorem foo_tar_compress:
  assumes "flags w init_config opts = Inr st0"
    and "op st0 = OP_WRITE"
    and "ipath st0 = None"
  shows "positional st0 [''foo.tar''] =
           Inr (st0\<lparr>ipath := Some ''foo.tar'', iremove := True, opath := Some ''foo.tpxz''\<rparr>)
       \<and> unlinked (snd (main w opts [''foo.tar''])) =
           (if fst (main w opts [''foo.tar'']) = Return0 \<and> \<not> keep_input st0
            then [''foo.tar''] else [])"
proof -
  have p: "positional st0 [''foo.tar''] =
      Inr (st0\<lparr>ipath := Some ''foo.tar'', iremove := True, opath := Some ''foo.tpxz''\<rparr>)"
    using assms(2,3) by (simp add: positional_one_argument auto_output_foo_tar)
  show ?thesis
    by (simp add: p main_resolved [OF assms(1) p] run_unlinked cleanup_def)
qed

theorem foo_tar_compress_witness:
  "unlinked (snd (main plain_world [] [''foo.tar''])) = [''foo.tar''] \<and>
   unlinked (snd (main plain_world [(CHR ''k'', [])] [''foo.tar''])) = []"
proof -
  note r = main_foo_tar_returns
  have a: "unlinked (snd (main plain_world [] [''foo.tar''])) = [''foo.tar'']"
    using foo_tar_compress [OF flags_nil, of plain_world] r
    by (simp add: init_config_def)
  have k: "flags plain_world init_config [(CHR ''k'', [])] = Inr (init_config\<lparr>keep_input := True\<rparr>)"
    by (simp add: flag_def)
  have b: "unlinked (snd (main plain_world [(CHR ''k'', [])] [''foo.tar''])) = []"
    using foo_tar_compress [OF k]
    by (simp add: init_config_def)
  from a b show ?thesis by simp
qed

text \<open>
  Claim C6: when compressing, if the output stream is a terminal the program ends with a
  usage error and the compression engine is never called; otherwise the engine is called
  with the tar flag and the level combined with the extreme flag.

  For a resolved configuration in compression mode whose streams opened: on a terminal
  the outcome is \<^verbatim>\<open>usage("Refusing to output to a TTY")\<close> and the trace has no engine
  call; otherwise its only engine call is \<^verbatim>\<open>pixz_write(tar, level)\<close>, with
  \<^verbatim>\<open>LZMA_PRESET_EXTREME\<close> or-ed into the level when \<^verbatim>\<open>-e\<close> was given.
\<close>

theorem compress_dispatch:
  assumes "flags w init_config opts = Inr st0"
    and "positional st0 argv = Inr st"
    and "op st = OP_WRITE"
    and "snd (open_input w st) = None"
    and "snd (open_output w st) = None"
  shows "(isatty_out w (opath st) \<longrightarrow>
            fst (main w opts argv) = Usage (Some ''Refusing to output to a TTY'') \<and>
            engine_calls (snd (main w opts argv)) = [])
       \<and> (\<not> isatty_out w (opath st) \<longrightarrow>
            engine_calls (snd (main w opts argv)) =
              [Pixz_write (tar st)
                 (if extreme st then level st OR LZMA_PRESET_EXTREME else level st)])"
  using assms(3,4,5)
  by (simp add: main_resolved [OF assms(1,2)] run_def dispatch_def engine_def Let_def
      open_input_quiet open_output_quiet cleanup_quiet engine_calls_append
      split: option.splits)

theorem compress_dispatch_witness:
  "fst (main tty_world [] []) = Usage (Some ''Refusing to output to a TTY'') \<and>
   engine_calls (snd (main tty_world [] [])) = [] \<and>
   engine_calls (snd (main plain_world [(CHR ''e'', []), (CHR ''9'', [])] [])) =
     [Pixz_write True 0x80000009] \<and>
   engine_calls (snd (main plain_world [] [''a''])) = [Pixz_write True 6]"
proof -
  have c: "engine_calls (snd (main plain_world [] [''a''])) = [Pixz_write True 6]"
    using compress_dispatch [OF flags_nil positional_a, of plain_world]
    by (simp add: init_config_def open_input_def open_output_def plain_world_def
        LZMA_PRESET_DEFAULT_def)
  have p: "positional (init_config :: unit config) [] = Inr init_config"
    by (simp add: positional_def)
  have a: "fst (main tty_world [] []) = Usage (Some ''Refusing to output to a TTY'') \<and>
      engine_calls (snd (main tty_world [] [])) = []"
    using compress_dispatch [OF flags_nil p, of tty_world]
    by (simp add: init_config_def open_input_def open_output_def tty_world_def plain_world_def)
  have f: "flags plain_world init_config [(CHR ''e'', []), (CHR ''9'', [])] =
      Inr (init_config\<lparr>extreme := True, level := 9\<rparr>)"
    by (simp add: flag_def isdigit_def)
  have q: "positional (init_config\<lparr>extreme := True, level := 9\<rparr> :: unit config) [] =
      Inr (init_config\<lparr>extreme := True, level := 9\<rparr>)"
    by (simp add: positional_def)
  have b: "engine_calls (snd (main plain_world [(CHR ''e'', []), (CHR ''9'', [])] [])) =
      [Pixz_write True 0x80000009]"
    using compress_dispatch [OF f q]
    by (simp add: init_config_def open_input_def open_output_def plain_world_def
        LZMA_PRESET_EXTREME_def)
  from a b c show ?thesis by simp
qed

text \<open>
  Claim C7: two positional arguments when listing, or more than two in any mode but
  extraction, end in the usage error \<^verbatim>\<open>Too many arguments\<close> with no file opened.

  Whenever the option loop ends normally, main ends with that message and an empty trace.
\<close>

theorem too_many_arguments:
  assumes "flags w init_config opts = Inr st"
    and "op st \<noteq> OP_EXTRACT"
    and "2 < length argv \<or> (op st = OP_LIST \<and> length argv = 2)"
  shows "main w opts argv = (Usage (Some ''Too many arguments''), [])"
proof -
  from assms(3) have "1 \<le> length argv" by auto
  with assms show ?thesis
    by (simp add: main_def positional_def Let_def)
qed

theorem too_many_arguments_witness:
  "main plain_world [(CHR ''l'', [])] [''a.tpxz'', ''b''] =
     (Usage (Some ''Too many arguments''), []) \<and>
   main plain_world [] [''a'', ''b'', ''c''] = (Usage (Some ''Too many arguments''), [])"
proof -
  have l: "flags plain_world init_config [(CHR ''l'', [])] = Inr (init_config\<lparr>op := OP_LIST\<rparr>)"
    by (simp add: flag_def)
  have a: "main plain_world [(CHR ''l'', [])] [''a.tpxz'', ''b''] =
      (Usage (Some ''Too many arguments''), [])"
    by (rule too_many_arguments [OF l]) (simp_all add: init_config_def)
  have b: "main plain_world [] [''a'', ''b'', ''c''] = (Usage (Some ''Too many arguments''), [])"
    by (rule too_many_arguments [OF flags_nil]) (simp_all add: init_config_def)
  from a b show ?thesis by simp
qed

text \<open>
  Claim C8: \<^verbatim>\<open>-q 0\<close> ends in a usage error with the usage exit status before any file
  is opened.

  Wherever \<^verbatim>\<open>-q 0\<close> stands among the options, main makes no call and exits with
  status 2; when the options before it are accepted, the message is the one of
  \<^verbatim>\<open>-q\<close>.
\<close>

theorem qsize_zero_usage:
  "snd (main w (xs @ (CHR ''q'', ''0'') # ys) argv) = [] \<and>
   exit_status (fst (main w (xs @ (CHR ''q'', ''0'') # ys) argv)) = Some 2 \<and>
   (\<forall>st. flags w init_config xs = Inr st \<longrightarrow>
      fst (main w (xs @ (CHR ''q'', ''0'') # ys) argv)
        = Usage (Some ''Need a positive integer argument to -q''))"
proof (cases "flags w init_config xs")
  case (Inl out)
  then obtain msg where "out = Usage msg"
    using flags_error_is_usage by blast
  with Inl show ?thesis
    by (simp add: main_def flags_append)
next
  case (Inr st)
  then show ?thesis
    by (simp add: main_def flags_append flag_q_zero)
qed

theorem qsize_zero_usage_witness:
  "main plain_world [(CHR ''q'', ''0'')] [''foo.tar''] =
     (Usage (Some ''Need a positive integer argument to -q''), [])"
proof -
  have "snd (main plain_world ([] @ (CHR ''q'', ''0'') # []) [''foo.tar'']) = [] \<and>
      fst (main plain_world ([] @ (CHR ''q'', ''0'') # []) [''foo.tar''])
        = Usage (Some ''Need a positive integer argument to -q'')"
    using qsize_zero_usage [of plain_world "[]" "[]" "[''foo.tar'']"] flags_nil [of plain_world]
    by blast
  then show ?thesis
    by (simp add: prod_eq_iff)
qed

text \<open>
  Claim C9: after the dispatcher has returned, the input file is deleted if and only if
  the removal mark is set and \<^verbatim>\<open>-k\<close> was not given; otherwise it is left in place.

  For a resolved configuration: the paths handed to \<^verbatim>\<open>unlink\<close> in a run are the
  input path alone when main returns, the mark is set and \<^verbatim>\<open>keep_input\<close> is not;
  there are none in every other case, also when the run ends before \<^verbatim>\<open>return 0\<close>.
\<close>

theorem input_removed_iff:
  assumes "flags w init_config opts = Inr st0"
    and "positional st0 argv = Inr st"
  shows "map Some (unlinked (snd (main w opts argv))) =
           (if fst (main w opts argv) = Return0 \<and> iremove st \<and> \<not> keep_input st
            then [ipath st] else [])"
proof -
  have "\<not> iremove st0"
    using flags_iremove [OF assms(1)] by (simp add: init_config_def)
  with assms(2) have "iremove st \<Longrightarrow> ipath st \<noteq> None"
    by (rule positional_iremove)
  then have "map Some (unlinked (cleanup st)) =
               (if iremove st \<and> \<not> keep_input st then [ipath st] else [])"
    by (auto simp: cleanup_def)
  then show ?thesis
    by (auto simp: main_resolved [OF assms] run_unlinked)
qed

theorem input_removed_iff_witness:
  "unlinked (snd (main plain_world [] [''foo.tar''])) = [''foo.tar''] \<and>
   unlinked (snd (main plain_world [] [''foo.tar'', ''out''])) = [] \<and>
   unlinked (snd (main full_disk_world [] [''foo.tar''])) = [] \<and>
   unlinked (snd (main plain_world [(CHR ''d'', [])] [''foo.xz''])) = [''foo.xz'']"
proof -
  have e: "unlinked (snd (main plain_world [(CHR ''d'', [])] [''foo.xz''])) = [''foo.xz'']"
    using input_removed_iff [OF flags_d positional_foo_xz] main_foo_xz_returns
    by (auto simp: init_config_def)
  note r = main_foo_tar_returns
  have a: "unlinked (snd (main plain_world [] [''foo.tar''])) = [''foo.tar'']"
    using input_removed_iff [OF flags_nil positional_foo_tar, of plain_world] r
    by (auto simp: init_config_def)
  have p2: "positional (init_config :: unit config) [''foo.tar'', ''out''] =
      Inr (init_config\<lparr>ipath := Some ''foo.tar'', opath := Some ''out''\<rparr>)"
    by (simp add: positional_def init_config_def)
  have b: "unlinked (snd (main plain_world [] [''foo.tar'', ''out''])) = []"
    using input_removed_iff [OF flags_nil p2, of plain_world]
    by (simp add: init_config_def)
  have d: "fst (main full_disk_world [] [''foo.tar'']) \<noteq> Return0"
    by (simp add: main_foo_tar_full_disk)
  have c: "unlinked (snd (main full_disk_world [] [''foo.tar''])) = []"
    using input_removed_iff [OF flags_nil positional_foo_tar, of full_disk_world] d
    by simp
  from a b c e show ?thesis by simp
qed

text \<open>
  Claim C10: \<^verbatim>\<open>-c\<close> (\<^verbatim>\<open>--stdout\<close>) is accepted and changes nothing: with it
  inserted anywhere among the options the resolved configuration is the same.

  The option loop gives the same result from any state, and main the same outcome and
  the same calls.
\<close>

theorem stdout_flag_no_effect:
  "flags w st (xs @ (CHR ''c'', a) # ys) = flags w st (xs @ ys) \<and>
   main w (xs @ (CHR ''c'', a) # ys) argv = main w (xs @ ys) argv"
proof -
  have "flags w st0 (xs @ (CHR ''c'', a) # ys) = flags w st0 (xs @ ys)" for st0 :: "'a config"
    by (simp add: flags_append flag_c split: sum.splits)
  then show ?thesis
    by (simp add: main_def)
qed

end
